theory Spec2Isabelle
  imports Main "HOL-Library.Word" "HOL-Library.Char_ord" "HOL-Library.List_Lexorder"
    "HOL-Library.Sublist" "HOL-Library.AList"
begin

unbundle bit_operations_syntax

chapter \<open>The embedding: query parser, schema checks, enum registry and resolvers\<close>

section \<open>Errors\<close>

text \<open>
  A Go \<^verbatim>\<open>error\<close> value is modelled by its message. A run-time panic (an index out of
  range, a \<^verbatim>\<open>panic(...)\<close> call, a misuse of \<^verbatim>\<open>reflect\<close>) is a value of its own type,
  since it unwinds every caller instead of being returned: a function that may panic
  returns \<open>panic + 'a\<close>, and \<open>Inl\<close> is the panic.
\<close>

datatype error = Error string

datatype panic = Panic string

text \<open>The double quote, for the messages and the JSON text that contain it.\<close>

definition dquote :: string where
  "dquote = [CHR 0x22]"

definition ErrorUnexpectedEOF :: error where
  "ErrorUnexpectedEOF = Error ''unexpected EOF''"

section \<open>The query parser (query\_parser.go)\<close>

text \<open>
  A Go \<^verbatim>\<open>string\<close> is a sequence of bytes, here a \<open>char list\<close>. A \<^verbatim>\<open>rune\<close> is a code point;
  the parser only ever builds one from a single byte, \<^verbatim>\<open>rune(i.data[nr])\<close>. The cursor
  \<^verbatim>\<open>charNr\<close> is a \<^verbatim>\<open>uint64\<close>; it never exceeds the length of the input by more than
  two, so it is a natural number here.
\<close>

type_synonym rune = nat

text \<open>
  The structs \<^verbatim>\<open>Operator\<close> (fields \<^verbatim>\<open>operationType\<close>, \<^verbatim>\<open>name\<close>) and \<^verbatim>\<open>Field\<close> (fields
  \<^verbatim>\<open>alias\<close>, \<^verbatim>\<open>name\<close>) of this file.
\<close>

record Operator =
  operationType :: string
  Operator_name :: string

record Field =
  Field_alias :: string
  Field_name :: string

record Iter =
  data :: string
  charNr :: nat

definition eof :: "Iter \<Rightarrow> nat \<Rightarrow> bool" where
  "eof i nr = (nr \<ge> length (data i))"

text \<open>\<^verbatim>\<open>i.c(nr)\<close> indexes the string and panics outside of it.\<close>

definition Iter_c :: "Iter \<Rightarrow> nat \<Rightarrow> panic + rune" where
  "Iter_c i nr =
     (if nr < length (data i) then Inr (of_char (data i ! nr))
      else Inl (Panic ''index out of range''))"

definition checkC :: "Iter \<Rightarrow> nat \<Rightarrow> panic + (rune \<times> bool)" where
  "checkC i nr =
     (if eof i nr then Inr (0, True)
      else (case Iter_c i nr of Inl e \<Rightarrow> Inl e | Inr r \<Rightarrow> Inr (r, False)))"

definition currentC :: "Iter \<Rightarrow> panic + rune" where
  "currentC i = Iter_c i (charNr i)"

definition isUnicodeBom :: "rune \<Rightarrow> bool" where
  "isUnicodeBom input = (input = 0xFEFF)"

definition isWhiteSpace :: "rune \<Rightarrow> bool" where
  "isWhiteSpace input = (input = of_char CHR '' '' \<or> input = of_char (CHR 0x09))"

definition isLineTerminator :: "Iter \<Rightarrow> panic + (bool \<times> Iter)" where
  "isLineTerminator i =
     (case currentC i of
        Inl e \<Rightarrow> Inl e
      | Inr c \<Rightarrow>
          if c = of_char (CHR 0x0A) then Inr (True, i)
          else if c = of_char (CHR 0x0D) then
            (case checkC i (charNr i + 1) of
               Inl e \<Rightarrow> Inl e
             | Inr (next, _) \<Rightarrow>
                 if next = of_char (CHR 0x0A) then Inr (True, i\<lparr>charNr := charNr i + 1\<rparr>)
                 else Inr (True, i))
          else Inr (False, i))"

lemma isLineTerminator_frame:
  "isLineTerminator i = Inr (b, i') \<Longrightarrow>
     data i' = data i \<and> charNr i \<le> charNr i' \<and> (\<not> b \<longrightarrow> i' = i)"
  by (auto simp: isLineTerminator_def split: sum.splits if_splits prod.splits)

function parseComment :: "Iter \<Rightarrow> panic + Iter" where
  "parseComment i =
     (if eof i (charNr i) then Inr i
      else (case isLineTerminator i of
              Inl e \<Rightarrow> Inl e
            | Inr (True, i') \<Rightarrow> Inr i'
            | Inr (False, i') \<Rightarrow> parseComment (i'\<lparr>charNr := charNr i' + 1\<rparr>)))"
  by pat_completeness auto
termination
  by (relation "measure (\<lambda>i. length (data i) - charNr i)")
     (auto simp: eof_def dest!: isLineTerminator_frame)

declare parseComment.simps [simp del]

definition isComment :: "Iter \<Rightarrow> bool \<Rightarrow> panic + (bool \<times> Iter)" where
  "isComment i parseComment_flag =
     (case currentC i of
        Inl e \<Rightarrow> Inl e
      | Inr c \<Rightarrow>
          if c = of_char CHR ''#'' then
            (if parseComment_flag then
               (case parseComment i of Inl e \<Rightarrow> Inl e | Inr i' \<Rightarrow> Inr (True, i'))
             else Inr (True, i))
          else Inr (False, i))"

text \<open>
  \<^verbatim>\<open>isUnicodeBom(c) || isWhiteSpace(c) || i.isLineTerminator() || i.isComment(true)\<close>,
  evaluated from left to right and stopping at the first true operand.
\<close>

definition isIgnoredToken :: "Iter \<Rightarrow> panic + (bool \<times> Iter)" where
  "isIgnoredToken i =
     (case currentC i of
        Inl e \<Rightarrow> Inl e
      | Inr c \<Rightarrow>
          if isUnicodeBom c \<or> isWhiteSpace c then Inr (True, i)
          else (case isLineTerminator i of
                  Inl e \<Rightarrow> Inl e
                | Inr (True, i') \<Rightarrow> Inr (True, i')
                | Inr (False, i') \<Rightarrow> isComment i' True))"

lemma parseComment_frame:
  "parseComment i = Inr i' \<Longrightarrow> data i' = data i \<and> charNr i \<le> charNr i'"
proof (induction i rule: parseComment.induct)
  case (1 i)
  show ?case
  proof (cases "eof i (charNr i)")
    case True
    with "1.prems" show ?thesis by (simp add: parseComment.simps)
  next
    case False
    from "1.prems" False obtain b j where lt: "isLineTerminator i = Inr (b, j)"
      by (auto simp: parseComment.simps split: sum.splits)
    note fr = isLineTerminator_frame [OF lt]
    show ?thesis
    proof (cases b)
      case True
      with "1.prems" False lt fr show ?thesis by (simp add: parseComment.simps)
    next
      case nb: False
      with "1.prems" False lt
      have "parseComment (j\<lparr>charNr := charNr j + 1\<rparr>) = Inr i'"
        by (simp add: parseComment.simps)
      from "1.IH" [OF False lt refl _ this] nb fr show ?thesis by simp
    qed
  qed
qed

lemma isComment_frame:
  "isComment i f = Inr (b, i') \<Longrightarrow>
     data i' = data i \<and> charNr i \<le> charNr i' \<and> (\<not> b \<longrightarrow> i' = i)"
  by (auto simp: isComment_def split: sum.splits if_splits dest: parseComment_frame)

lemma isIgnoredToken_frame:
  "isIgnoredToken i = Inr (b, i') \<Longrightarrow>
     data i' = data i \<and> charNr i \<le> charNr i' \<and> (\<not> b \<longrightarrow> i' = i)"
  by (auto simp: isIgnoredToken_def split: sum.splits if_splits bool.splits
      dest!: isLineTerminator_frame isComment_frame)

text \<open>
  \<^verbatim>\<open>matches\<close> keeps the candidate keywords in a Go map and deletes those that stop
  matching. Go leaves the iteration order of a map unspecified; here the map is the list
  of its keys and is visited in list order. One pass of \<^verbatim>\<open>for key := range oneOfMap\<close> at
  a given offset: the key is deleted when it does not match, and it is returned as soon as
  its length is \<open>offset + 1\<close>, whether it was just deleted or not.
\<close>

fun matchesKeys :: "nat \<Rightarrow> rune \<Rightarrow> string list \<Rightarrow> string list \<Rightarrow> string + string list" where
  "matchesKeys offset c [] oneOfMap = Inr oneOfMap"
| "matchesKeys offset c (key # keys) oneOfMap =
     (let keyLen = length key;
          oneOfMap' = (if offset \<ge> keyLen \<or> of_char (key ! offset) \<noteq> c
                       then removeAll key oneOfMap else oneOfMap)
      in if keyLen = offset + 1 then Inl key else matchesKeys offset c keys oneOfMap')"

function matchesLoop :: "Iter \<Rightarrow> nat \<Rightarrow> string list \<Rightarrow> panic + (string \<times> Iter)" where
  "matchesLoop i startIdx oneOfMap =
     (case checkC i (charNr i) of
        Inl p \<Rightarrow> Inl p
      | Inr (c, True) \<Rightarrow> Inr ('''', i\<lparr>charNr := startIdx\<rparr>)
      | Inr (c, False) \<Rightarrow>
          (case matchesKeys (charNr i - startIdx) c oneOfMap oneOfMap of
             Inl key \<Rightarrow> Inr (key, i)
           | Inr oneOfMap' \<Rightarrow>
               if length oneOfMap' = 0 then Inr ('''', i\<lparr>charNr := startIdx\<rparr>)
               else matchesLoop (i\<lparr>charNr := charNr i + 1\<rparr>) startIdx oneOfMap'))"
  by pat_completeness auto
termination
  by (relation "measure (\<lambda>(i, s, m). length (data i) - charNr i)")
     (auto simp: checkC_def eof_def split: if_splits)

declare matchesLoop.simps [simp del]

definition matches :: "Iter \<Rightarrow> string list \<Rightarrow> panic + (string \<times> Iter)" where
  "matches i oneOf = matchesLoop i (charNr i) (remdups oneOf)"

text \<open>
  \<^verbatim>\<open>string(c)\<close> for a rune is the UTF-8 encoding of the code point (U+FFFD for a surrogate
  or a value past U+10FFFF).
\<close>

definition string_of_rune :: "rune \<Rightarrow> string" where
  "string_of_rune r =
     (if r < 0x80 then [char_of r]
      else if r < 0x800 then [char_of (0xC0 + r div 64), char_of (0x80 + r mod 64)]
      else if (0xD800 \<le> r \<and> r < 0xE000) \<or> 0x10FFFF < r then [CHR 0xEF, CHR 0xBF, CHR 0xBD]
      else if r < 0x10000 then
        [char_of (0xE0 + r div 4096), char_of (0x80 + (r div 64) mod 64),
         char_of (0x80 + r mod 64)]
      else
        [char_of (0xF0 + r div 262144), char_of (0x80 + (r div 4096) mod 64),
         char_of (0x80 + (r div 64) mod 64), char_of (0x80 + r mod 64)])"

text \<open>
  The table of \<^verbatim>\<open>parseName\<close>: the lower-case letters and the underscore map to true
  (allowed as first character), the digits to false.
\<close>

definition allowedChars :: "rune \<rightharpoonup> bool" where
  "allowedChars =
     fold (\<lambda>notFirstAllowedChar m. m(of_char notFirstAllowedChar \<mapsto> False)) ''0123456789''
       (fold (\<lambda>allowedChar m. m(of_char allowedChar \<mapsto> True)) ''abcdefghijklmnopqrstuvwxyz_''
          Map.empty)"

function parseNameLoop :: "Iter \<Rightarrow> string \<Rightarrow> panic + (string \<times> Iter)" where
  "parseNameLoop i name =
     (case checkC i (charNr i) of
        Inl p \<Rightarrow> Inl p
      | Inr (c, True) \<Rightarrow> Inr (name, i)
      | Inr (c, False) \<Rightarrow>
          (case allowedChars c of
             None \<Rightarrow> Inr (name, i)
           | Some allowedAsFirstChar \<Rightarrow>
               if name = '''' \<and> \<not> allowedAsFirstChar then Inr (name, i)
               else parseNameLoop (i\<lparr>charNr := charNr i + 1\<rparr>) (name @ string_of_rune c)))"
  by pat_completeness auto
termination
  by (relation "measure (\<lambda>(i, n). length (data i) - charNr i)")
     (auto simp: checkC_def eof_def split: if_splits)

declare parseNameLoop.simps [simp del]

definition parseName :: "Iter \<Rightarrow> panic + (string \<times> Iter)" where
  "parseName i = parseNameLoop i ''''"

lemma matchesLoop_frame:
  "matchesLoop i startIdx m = Inr (k, i') \<Longrightarrow> startIdx \<le> charNr i \<Longrightarrow>
     data i' = data i \<and> startIdx \<le> charNr i'"
proof (induction i startIdx m rule: matchesLoop.induct)
  case (1 i startIdx oneOfMap)
  from "1.prems" show ?case
    by (subst (asm) matchesLoop.simps)
       (auto split: sum.splits prod.splits bool.splits if_splits dest!: "1.IH" [OF _ refl])
qed

lemma matches_frame:
  "matches i oneOf = Inr (k, i') \<Longrightarrow> data i' = data i \<and> charNr i \<le> charNr i'"
  unfolding matches_def by (drule matchesLoop_frame) auto

lemma parseNameLoop_frame:
  "parseNameLoop i name = Inr (k, i') \<Longrightarrow> data i' = data i \<and> charNr i \<le> charNr i'"
proof (induction i name rule: parseNameLoop.induct)
  case (1 i name)
  from "1.prems" show ?case
    by (subst (asm) parseNameLoop.simps)
       (auto split: sum.splits prod.splits bool.splits if_splits option.splits
          dest!: "1.IH" [OF _ refl])
qed

lemma parseName_frame:
  "parseName i = Inr (k, i') \<Longrightarrow> data i' = data i \<and> charNr i \<le> charNr i'"
  unfolding parseName_def by (rule parseNameLoop_frame)

text \<open>
  \<^verbatim>\<open>parseField\<close>: the name, then the loop that skips ignored tokens up to the next
  character and notes whether it is a colon.
\<close>

function parseFieldLoop :: "Iter \<Rightarrow> Field \<Rightarrow> string \<Rightarrow> panic + ((error + Field) \<times> Iter)" where
  "parseFieldLoop i res nameOrAlias =
     (case checkC i (charNr i) of
        Inl p \<Rightarrow> Inl p
      | Inr (c, True) \<Rightarrow> Inr (Inl ErrorUnexpectedEOF, i)
      | Inr (c, False) \<Rightarrow>
          (case isIgnoredToken i of
             Inl p \<Rightarrow> Inl p
           | Inr (True, i') \<Rightarrow> parseFieldLoop (i'\<lparr>charNr := charNr i' + 1\<rparr>) res nameOrAlias
           | Inr (False, i') \<Rightarrow>
               if c = of_char CHR '':'' then Inr (Inr (res\<lparr>Field_alias := nameOrAlias\<rparr>), i')
               else Inr (Inr res, i')))"
  by pat_completeness auto
termination
  by (relation "measure (\<lambda>(i, r, n). length (data i) - charNr i)")
     (auto simp: checkC_def eof_def split: if_splits dest!: isIgnoredToken_frame)

declare parseFieldLoop.simps [simp del]

definition parseField :: "Iter \<Rightarrow> panic + ((error + Field) \<times> Iter)" where
  "parseField i =
     (case parseName i of
        Inl p \<Rightarrow> Inl p
      | Inr (nameOrAlias, i') \<Rightarrow>
          if nameOrAlias = '''' then Inr (Inl (Error ''field should have a name''), i')
          else parseFieldLoop i' \<lparr>Field_alias = '''', Field_name = ''''\<rparr> nameOrAlias)"

lemma parseFieldLoop_frame:
  "parseFieldLoop i res n = Inr (r, i') \<Longrightarrow> data i' = data i \<and> charNr i \<le> charNr i'"
proof (induction i res n rule: parseFieldLoop.induct)
  case (1 i res n)
  note prem = "1.prems" [unfolded parseFieldLoop.simps [of i res n]]
  show ?case
  proof (cases "checkC i (charNr i)")
    case (Inl p)
    with prem show ?thesis by simp
  next
    case (Inr ce)
    obtain c e where ce: "ce = (c, e)" by (cases ce)
    show ?thesis
    proof (cases e)
      case True
      with prem Inr ce show ?thesis by simp
    next
      case ne: False
      show ?thesis
      proof (cases "isIgnoredToken i")
        case (Inl p)
        with prem Inr ce ne show ?thesis by simp
      next
        case ig: (Inr bj)
        obtain b j where bj: "bj = (b, j)" by (cases bj)
        note fr = isIgnoredToken_frame [OF ig [unfolded bj]]
        show ?thesis
        proof (cases b)
          case True
          with prem Inr ce ne ig bj
          have rec: "parseFieldLoop (j\<lparr>charNr := charNr j + 1\<rparr>) res n = Inr (r, i')" by simp
          have "data i' = data (j\<lparr>charNr := charNr j + 1\<rparr>) \<and>
                charNr (j\<lparr>charNr := charNr j + 1\<rparr>) \<le> charNr i'"
            by (rule "1.IH" [OF Inr [unfolded ce] refl _ ig [unfolded bj] refl _ rec])
               (simp_all add: ne True)
          with fr show ?thesis by simp
        next
          case False
          with prem Inr ce ne ig bj fr show ?thesis by (auto split: if_splits)
        qed
      qed
    qed
  qed
qed

lemma parseField_frame:
  "parseField i = Inr (r, i') \<Longrightarrow> data i' = data i \<and> charNr i \<le> charNr i'"
  by (auto simp: parseField_def split: sum.splits prod.splits if_splits
      dest!: parseName_frame parseFieldLoop_frame)

text \<open>
  \<^verbatim>\<open>parseSelection\<close> calls \<^verbatim>\<open>i.parseField()\<close> and drops both of its results; only the
  cursor it leaves behind counts.
\<close>

definition parseSelection :: "Iter \<Rightarrow> panic + (error option \<times> Iter)" where
  "parseSelection i =
     (case matches i [''...''] of
        Inl p \<Rightarrow> Inl p
      | Inr (m, i') \<Rightarrow>
          if length m > 0 then
            Inr (Some (Error ''https://spec.graphql.org/June2018/#Selection''),
                 i'\<lparr>charNr := charNr i' + 1\<rparr>)
          else (case parseField i' of
                  Inl p \<Rightarrow> Inl p
                | Inr (_, i'') \<Rightarrow> Inr (None, i'')))"

lemma parseSelection_frame:
  "parseSelection i = Inr (r, i') \<Longrightarrow> data i' = data i \<and> charNr i \<le> charNr i'"
  by (auto simp: parseSelection_def split: sum.splits prod.splits if_splits
      dest!: matches_frame parseField_frame)

function parseSelectionSets :: "Iter \<Rightarrow> panic + (error option \<times> Iter)" where
  "parseSelectionSets i =
     (case checkC i (charNr i) of
        Inl p \<Rightarrow> Inl p
      | Inr (c, True) \<Rightarrow> Inr (Some ErrorUnexpectedEOF, i)
      | Inr (c, False) \<Rightarrow>
          (case isIgnoredToken i of
             Inl p \<Rightarrow> Inl p
           | Inr (True, i') \<Rightarrow> parseSelectionSets (i'\<lparr>charNr := charNr i' + 1\<rparr>)
           | Inr (False, i') \<Rightarrow>
               if c = of_char CHR ''}'' then Inr (None, i')
               else (case parseSelection i' of
                       Inl p \<Rightarrow> Inl p
                     | Inr (Some err, i'') \<Rightarrow> Inr (Some err, i'')
                     | Inr (None, i'') \<Rightarrow>
                         if c = of_char CHR ''}'' then Inr (None, i'')
                         else parseSelectionSets (i''\<lparr>charNr := charNr i'' + 1\<rparr>))))"
  by pat_completeness auto
termination
  by (relation "measure (\<lambda>i. length (data i) - charNr i)")
     (auto simp: checkC_def eof_def split: if_splits
        dest!: isIgnoredToken_frame parseSelection_frame)

declare parseSelectionSets.simps [simp del]

text \<open>
  \<^verbatim>\<open>parseOperator\<close>. The body of its \<^verbatim>\<open>switch stage\<close> either returns from the function
  or leaves a new \<^verbatim>\<open>res\<close> and \<^verbatim>\<open>stage\<close> for the next round of the loop; a stage that is
  none of the five strings falls through the switch.
\<close>

datatype parseOperatorStep = Return "error + Operator" | Continue Operator string

definition parseOperatorSwitch ::
  "Iter \<Rightarrow> Operator \<Rightarrow> string \<Rightarrow> rune \<Rightarrow> panic + (parseOperatorStep \<times> Iter)" where
  "parseOperatorSwitch i res stage c =
     (if stage = ''operationType'' then
        (if c = of_char CHR ''{'' then Inr (Continue res ''selectionSets'', i)
         else (case matches i [''query'', ''mutation'', ''subscription''] of
                 Inl p \<Rightarrow> Inl p
               | Inr (newOperationType, i') \<Rightarrow>
                   if length newOperationType > 0 then
                     Inr (Continue (res\<lparr>operationType := newOperationType\<rparr>) ''name'', i')
                   else Inr (Return (Inl (Error ''unknown operation type'')), i')))
      else if stage = ''name'' then
        (if c = of_char CHR ''('' then Inr (Continue res ''variableDefinitions'', i)
         else if c = of_char CHR ''@'' then Inr (Continue res ''directives'', i)
         else if c = of_char CHR ''{'' then Inr (Continue res ''selectionSets'', i)
         else (case parseName i of
                 Inl p \<Rightarrow> Inl p
               | Inr (n, i') \<Rightarrow>
                   Inr (Continue (res\<lparr>Operator_name := n\<rparr>) ''variableDefinitions'', i')))
      else if stage = ''variableDefinitions'' then
        (if c = of_char CHR ''@'' then Inr (Continue res ''directives'', i)
         else if c = of_char CHR ''{'' then Inr (Continue res ''selectionSets'', i)
         else Inr (Return (Inl (Error
                ''https://spec.graphql.org/June2018/#VariableDefinitions'')), i))
      else if stage = ''directives'' then
        (if c = of_char CHR ''{'' then Inr (Continue res ''selectionSets'', i)
         else Inr (Return (Inl (Error
                ''https://spec.graphql.org/June2018/#sec-Language.Directives'')), i))
      else if stage = ''selectionSets'' then
        (case parseSelectionSets i of
           Inl p \<Rightarrow> Inl p
         | Inr (Some err, i') \<Rightarrow> Inr (Return (Inl err), i')
         | Inr (None, i') \<Rightarrow> Inr (Return (Inr res), i'))
      else Inr (Continue res stage, i))"

lemma parseSelectionSets_frame:
  "parseSelectionSets i = Inr (r, i') \<Longrightarrow> data i' = data i \<and> charNr i \<le> charNr i'"
proof (induction i rule: parseSelectionSets.induct)
  case (1 i)
  note prem = "1.prems" [unfolded parseSelectionSets.simps [of i]]
  show ?case
  proof (cases "checkC i (charNr i)")
    case (Inl p)
    with prem show ?thesis by simp
  next
    case (Inr ce)
    obtain c e where ce: "ce = (c, e)" by (cases ce)
    show ?thesis
    proof (cases e)
      case True
      with prem Inr ce show ?thesis by simp
    next
      case ne: False
      show ?thesis
      proof (cases "isIgnoredToken i")
        case (Inl p)
        with prem Inr ce ne show ?thesis by simp
      next
        case ig: (Inr bj)
        obtain b j where bj: "bj = (b, j)" by (cases bj)
        note fr = isIgnoredToken_frame [OF ig [unfolded bj]]
        show ?thesis
        proof (cases b)
          case True
          with prem Inr ce ne ig bj
          have rec: "parseSelectionSets (j\<lparr>charNr := charNr j + 1\<rparr>) = Inr (r, i')" by simp
          have "data i' = data (j\<lparr>charNr := charNr j + 1\<rparr>) \<and>
                charNr (j\<lparr>charNr := charNr j + 1\<rparr>) \<le> charNr i'"
            by (rule "1.IH" (1) [OF Inr [unfolded ce] refl _ ig [unfolded bj] refl _ rec])
               (simp_all add: ne True)
          with fr show ?thesis by simp
        next
          case nb: False
          show ?thesis
          proof (cases "c = of_char CHR ''}''")
            case True
            with prem Inr ce ne ig bj nb fr show ?thesis by simp
          next
            case nc: False
            show ?thesis
            proof (cases "parseSelection j")
              case (Inl p)
              with prem Inr ce ne ig bj nb nc show ?thesis by simp
            next
              case ps: (Inr ek)
              obtain eo k where ek: "ek = (eo, k)" by (cases ek)
              note fr2 = parseSelection_frame [OF ps [unfolded ek]]
              show ?thesis
              proof (cases eo)
                case (Some err)
                with prem Inr ce ne ig bj nb nc ps ek fr fr2 show ?thesis by simp
              next
                case None
                with prem Inr ce ne ig bj nb nc ps ek
                have rec: "parseSelectionSets (k\<lparr>charNr := charNr k + 1\<rparr>) = Inr (r, i')"
                  by simp
                have "data i' = data (k\<lparr>charNr := charNr k + 1\<rparr>) \<and>
                      charNr (k\<lparr>charNr := charNr k + 1\<rparr>) \<le> charNr i'"
                  by (rule "1.IH" (2) [OF Inr [unfolded ce] refl _ ig [unfolded bj] refl _ _
                        ps [unfolded ek] refl _ _ rec])
                     (use nc in \<open>simp_all add: ne nb None\<close>)
                with fr fr2 show ?thesis by simp
              qed
            qed
          qed
        qed
      qed
    qed
  qed
qed

lemma parseOperatorSwitch_frame:
  "parseOperatorSwitch i res stage c = Inr (r, i') \<Longrightarrow>
     data i' = data i \<and> charNr i \<le> charNr i'"
  by (auto simp: parseOperatorSwitch_def split: sum.splits prod.splits if_splits option.splits
      dest!: matches_frame parseName_frame parseSelectionSets_frame)

function parseOperatorLoop ::
  "Iter \<Rightarrow> Operator \<Rightarrow> string \<Rightarrow> panic + ((error + Operator) \<times> Iter)" where
  "parseOperatorLoop i res stage =
     (if eof i (charNr i) then
        (if stage \<noteq> ''operationType'' then Inr (Inl ErrorUnexpectedEOF, i)
         else Inr (Inr res, i))
      else (case isIgnoredToken i of
              Inl p \<Rightarrow> Inl p
            | Inr (True, i') \<Rightarrow> parseOperatorLoop (i'\<lparr>charNr := charNr i' + 1\<rparr>) res stage
            | Inr (False, i') \<Rightarrow>
                (case currentC i' of
                   Inl p \<Rightarrow> Inl p
                 | Inr c \<Rightarrow>
                     (case parseOperatorSwitch i' res stage c of
                        Inl p \<Rightarrow> Inl p
                      | Inr (Return r, i'') \<Rightarrow> Inr (r, i'')
                      | Inr (Continue res' stage', i'') \<Rightarrow>
                          parseOperatorLoop (i''\<lparr>charNr := charNr i'' + 1\<rparr>) res' stage'))))"
  by pat_completeness auto
termination
  by (relation "measure (\<lambda>(i, r, s). length (data i) - charNr i)")
     (auto simp: eof_def dest!: isIgnoredToken_frame parseOperatorSwitch_frame)

declare parseOperatorLoop.simps [simp del]

definition parseOperator :: "Iter \<Rightarrow> panic + ((error + Operator) \<times> Iter)" where
  "parseOperator i =
     parseOperatorLoop i \<lparr>operationType = ''query'', Operator_name = ''''\<rparr> ''operationType''"

definition ParseQuery :: "string \<Rightarrow> panic + (error + Operator)" where
  "ParseQuery input =
     (case parseOperator \<lparr>data = input, charNr = 0\<rparr> of
        Inl p \<Rightarrow> Inl p
      | Inr (Inl err, _) \<Rightarrow> Inr (Inl err)
      | Inr (Inr res, _) \<Rightarrow> Inr (Inr res))"

section \<open>Identifier validation (parse.go)\<close>

text \<open>
  \<^verbatim>\<open>validGraphQlName\<close> walks the bytes with their index: letters are accepted anywhere,
  digits and the underscore only at an index greater than zero.
\<close>

fun validGraphQlNameLoop :: "nat \<Rightarrow> string \<Rightarrow> error option" where
  "validGraphQlNameLoop i [] = None"
| "validGraphQlNameLoop i (char # rest) =
     (if char \<ge> CHR ''A'' \<and> char \<le> CHR ''Z'' then validGraphQlNameLoop (i + 1) rest
      else if char \<ge> CHR ''a'' \<and> char \<le> CHR ''z'' then validGraphQlNameLoop (i + 1) rest
      else if i > 0 \<and> char \<ge> CHR ''0'' \<and> char \<le> CHR ''9'' then
        validGraphQlNameLoop (i + 1) rest
      else if i > 0 \<and> char = CHR ''_'' then validGraphQlNameLoop (i + 1) rest
      else Some (Error ''invalid graphql name''))"

definition validGraphQlName :: "string \<Rightarrow> error option" where
  "validGraphQlName name =
     (if length name = 0 then Some (Error ''invalid graphql name'')
      else validGraphQlNameLoop 0 name)"

text \<open>
  The grammar of the specification, \<^verbatim>\<open>[A-Za-z_][A-Za-z0-9_]*\<close>, written from its words, and
  the character classes used to describe what the two functions accept.
\<close>

definition spec_name_start :: "char \<Rightarrow> bool" where
  "spec_name_start ch =
     ((CHR ''A'' \<le> ch \<and> ch \<le> CHR ''Z'') \<or> (CHR ''a'' \<le> ch \<and> ch \<le> CHR ''z'') \<or>
      ch = CHR ''_'')"

definition spec_name_continue :: "char \<Rightarrow> bool" where
  "spec_name_continue ch = (spec_name_start ch \<or> (CHR ''0'' \<le> ch \<and> ch \<le> CHR ''9''))"

fun spec_Name :: "string \<Rightarrow> bool" where
  "spec_Name [] = False"
| "spec_Name (ch # rest) = (spec_name_start ch \<and> list_all spec_name_continue rest)"

definition is_letter :: "char \<Rightarrow> bool" where
  "is_letter ch =
     ((CHR ''A'' \<le> ch \<and> ch \<le> CHR ''Z'') \<or> (CHR ''a'' \<le> ch \<and> ch \<le> CHR ''z''))"

definition lower_name_start :: "char \<Rightarrow> bool" where
  "lower_name_start ch = ((CHR ''a'' \<le> ch \<and> ch \<le> CHR ''z'') \<or> ch = CHR ''_'')"

definition lower_name_continue :: "char \<Rightarrow> bool" where
  "lower_name_continue ch = (lower_name_start ch \<or> (CHR ''0'' \<le> ch \<and> ch \<le> CHR ''9''))"

fun lower_Name :: "string \<Rightarrow> bool" where
  "lower_Name [] = False"
| "lower_Name (ch # rest) = (lower_name_start ch \<and> list_all lower_name_continue rest)"

text \<open>The token \<^verbatim>\<open>parseName\<close> reads off the input that starts at the cursor.\<close>

definition parseName_token :: "string \<Rightarrow> string" where
  "parseName_token rest =
     (case rest of
        [] \<Rightarrow> []
      | ch # _ \<Rightarrow> if lower_name_start ch then takeWhile lower_name_continue rest else [])"

section \<open>Go types as \<^verbatim>\<open>reflect\<close> shows them\<close>

text \<open>
  \<^verbatim>\<open>reflect.Kind\<close>, and the part of a \<^verbatim>\<open>reflect.Type\<close> that the schema code reads: its kind,
  name and package path, whether it implements \<^verbatim>\<open>error\<close>, and, for a function type, its
  results and whether it is variadic; for a struct type, its fields. The tag of a struct
  field is represented by the result of \<^verbatim>\<open>field.Tag.Lookup("gq")\<close>.
\<close>

datatype Kind =
  KInvalid | KBool | KInt | KInt8 | KInt16 | KInt32 | KInt64
| KUint | KUint8 | KUint16 | KUint32 | KUint64 | KUintptr
| KFloat32 | KFloat64 | KComplex64 | KComplex128
| KArray | KChan | KFunc | KInterface | KMap | KPtr | KSlice | KString | KStruct
| KUnsafePointer

datatype gotype = GoType
  (t_Kind: Kind) (t_Name: string) (t_PkgPath: string) (t_ImplementsError: bool)
  (t_IsVariadic: bool) (t_Outs: "gotype list") (t_Fields: "StructField list")
and StructField = StructField
  (sf_Name: string) (sf_Anonymous: bool) (sf_Type: gotype) (sf_TagGq: "string option")

section \<open>Enum registration (the file with \<^verbatim>\<open>RegisterEnum\<close>)\<close>

definition validEnumType :: "gotype \<Rightarrow> bool" where
  "validEnumType t =
     (case t_Kind t of
        KInt \<Rightarrow> True | KInt8 \<Rightarrow> True | KInt16 \<Rightarrow> True | KInt32 \<Rightarrow> True | KInt64 \<Rightarrow> True
      | KUint \<Rightarrow> True | KUint8 \<Rightarrow> True | KUint16 \<Rightarrow> True | KUint32 \<Rightarrow> True | KUint64 \<Rightarrow> True
      | KString \<Rightarrow> True
      | _ \<Rightarrow> False)"

text \<open>
  The types \<^verbatim>\<open>qlType\<close> and \<^verbatim>\<open>qlEnumValue\<close> are declared in a file that is not part of the
  sources at hand; they are taken from the composite literals of \<^verbatim>\<open>registerEnumCheck\<close>.
  \<^verbatim>\<open>EnumValues\<close> is a closure that returns the same list for every argument.
\<close>

record qlEnumValue =
  ev_Name :: string
  ev_Description :: "string option"
  ev_IsDeprecated :: bool
  ev_DeprecationReason :: "string option"

datatype typeKind = typeKindEnum

record qlType =
  ql_Kind :: typeKind
  ql_Name :: "string option"
  ql_Description :: "string option"
  ql_EnumValues :: "qlEnumValue list"

text \<open>
  The struct \<^verbatim>\<open>enum\<close>. The two Go maps \<^verbatim>\<open>keyValue\<close> and \<^verbatim>\<open>valueKey\<close> are association lists
  with one pair per key; \<open>'v\<close> is the type of the enum's values.
\<close>

record 'v enum =
  contentType :: gotype
  typeName :: string
  keyValue :: "(string \<times> 'v) list"
  valueKey :: "('v \<times> string) list"
  enum_qlType :: qlType

text \<open>
  The argument \<^verbatim>\<open>map_ interface{}\<close> as \<^verbatim>\<open>reflect\<close> sees it: the kind of its type, and for a
  map the kind of its key type, its element type and its entries. A Go map has one entry
  per key and no order; \<^verbatim>\<open>MapRange\<close> visits the entries in some order, here the order of
  the list.
\<close>

record 'v enumMap =
  em_Kind :: Kind
  em_KeyKind :: Kind
  em_Elem :: gotype
  em_entries :: "(string \<times> 'v) list"

definition invalidTypeMsg :: string where
  "invalidTypeMsg =
     ''RegisterEnum input must be of type map[string]CustomType(int..|uint..|string) as input''"

text \<open>
  The loop over the entries. The panic messages of the source end in the formatted key or
  value; the key is kept, the formatted value is left out.
\<close>

fun registerEnumLoop ::
  "(string \<times> 'v) list \<Rightarrow> (string \<times> 'v) list \<Rightarrow> ('v \<times> string) list \<Rightarrow>
     panic + ((string \<times> 'v) list \<times> ('v \<times> string) list)" where
  "registerEnumLoop [] res valueKeyMap = Inr (res, valueKeyMap)"
| "registerEnumLoop ((keyStr, v) # rest) res valueKeyMap =
     (if keyStr = '''' then Inl (Panic ''RegisterEnum input map cannot contain empty keys'')
      else (case validGraphQlName keyStr of
              Some err \<Rightarrow>
                Inl (Panic (''RegisterEnum map key must start with an alphabetic character ''
                  @ ''(lower or upper) followed by the same or a '' @ dquote @ ''_'' @ dquote
                  @ '', key given: '' @ keyStr))
            | None \<Rightarrow>
                if map_of valueKeyMap v \<noteq> None then
                  Inl (Panic ''RegisterEnum input map cannot have duplicated values'')
                else registerEnumLoop rest (AList.update keyStr v res)
                       (AList.update v keyStr valueKeyMap)))"

definition registerEnumCheck :: "'v enumMap \<Rightarrow> panic + 'v enum option" where
  "registerEnumCheck mapv =
     (if em_Kind mapv \<noteq> KMap then Inl (Panic invalidTypeMsg)
      else if em_KeyKind mapv \<noteq> KString then Inl (Panic invalidTypeMsg)
      else let contentType = em_Elem mapv in
        if \<not> validEnumType contentType then Inl (Panic invalidTypeMsg)
        else if t_PkgPath contentType = '''' \<or> t_Name contentType = '''' then
          Inl (Panic (''RegisterEnum input map value must have a global custom type value ''
            @ ''(type Animals string) or (type Rules uint64)''))
        else let inputLen = length (em_entries mapv) in
          if inputLen = 0 then Inr None
          else (case registerEnumLoop (em_entries mapv) [] [] of
                  Inl p \<Rightarrow> Inl p
                | Inr (res, valueKeyMap) \<Rightarrow>
                    let name = t_Name contentType;
                        qlTypeEnumValues =
                          sort_key ev_Name
                            (map (\<lambda>key. \<lparr>ev_Name = key, ev_Description = Some '''',
                                         ev_IsDeprecated = False, ev_DeprecationReason = None\<rparr>)
                               (map fst res));
                        qlType = \<lparr>ql_Kind = typeKindEnum, ql_Name = Some name,
                                  ql_Description = Some '''', ql_EnumValues = qlTypeEnumValues\<rparr>
                    in Inr (Some \<lparr>contentType = contentType, typeName = name, keyValue = res,
                                  valueKey = valueKeyMap, enum_qlType = qlType\<rparr>)))"

text \<open>
  \<^verbatim>\<open>RegisterEnum\<close> writes the package variable \<^verbatim>\<open>definedEnums\<close>; the model takes the map and
  returns it updated.
\<close>

definition RegisterEnum ::
  "(string \<rightharpoonup> 'v enum) \<Rightarrow> 'v enumMap \<Rightarrow> panic + (bool \<times> (string \<rightharpoonup> 'v enum))" where
  "RegisterEnum definedEnums mapv =
     (case registerEnumCheck mapv of
        Inl p \<Rightarrow> Inl p
      | Inr None \<Rightarrow> Inr (False, definedEnums)
      | Inr (Some enum) \<Rightarrow> Inr (True, definedEnums(typeName enum \<mapsto> enum)))"

section \<open>The reusable context of the bytecode resolver (bytecode\_resolver.go)\<close>

text \<open>
  A Go slice of bytes is a view of a backing array: the array it points into (an
  address), the bytes of that array from the start of the slice to its capacity, and the
  length of the slice. \<^verbatim>\<open>s[:n]\<close> keeps the array and the capacity and sets the length;
  \<^verbatim>\<open>append\<close> writes in place while the capacity lasts and moves to a new array otherwise.
  The address and the capacity of a new array are the allocator's choice, the parameter
  \<open>alloc\<close>.
\<close>

record byteslice =
  sl_array :: nat
  sl_store :: "8 word list"
  sl_len :: nat

definition sl_cap :: "byteslice \<Rightarrow> nat" where
  "sl_cap s = length (sl_store s)"

definition sl_bytes :: "byteslice \<Rightarrow> 8 word list" where
  "sl_bytes s = take (sl_len s) (sl_store s)"

definition reslice_to :: "byteslice \<Rightarrow> nat \<Rightarrow> panic + byteslice" where
  "reslice_to s n =
     (if n \<le> sl_cap s then Inr (s\<lparr>sl_len := n\<rparr>)
      else Inl (Panic ''slice bounds out of range''))"

definition go_append :: "(nat \<Rightarrow> nat \<times> nat) \<Rightarrow> byteslice \<Rightarrow> 8 word list \<Rightarrow> byteslice" where
  "go_append alloc s b =
     (let n = sl_len s + length b in
      if n \<le> sl_cap s then
        s\<lparr>sl_store := take (sl_len s) (sl_store s) @ b @ drop n (sl_store s), sl_len := n\<rparr>
      else
        (let (addr, newcap) = alloc n in
         \<lparr>sl_array = addr,
          sl_store = sl_bytes s @ b @ replicate (newcap - n) 0,
          sl_len = n\<rparr>))"

text \<open>
  \<^verbatim>\<open>BytecodeCtx\<close>: the schema pointer, the parser context of the absent package
  \<^verbatim>\<open>bytecode\<close>, the result buffer, the instruction cursor, and the stack of 256
  \<^verbatim>\<open>reflect.Value\<close>s with its \<^verbatim>\<open>uint8\<close> cursor.
\<close>

record ('s, 'q, 'v) BytecodeCtx =
  bc_schema :: 's
  bc_query :: 'q
  bc_result :: byteslice
  bc_charNr :: int
  reflectValues :: "'v list"
  currentReflectValueIdx :: "8 word"

text \<open>
  The first statement of \<^verbatim>\<open>BytecodeResolve\<close>: the context is overwritten by a composite
  literal that names five fields; \<^verbatim>\<open>charNr\<close> is not named and gets its zero value.
\<close>

definition BytecodeResolve_reset ::
  "('s, 'q, 'v) BytecodeCtx \<Rightarrow> panic + ('s, 'q, 'v) BytecodeCtx" where
  "BytecodeResolve_reset ctx =
     (case reslice_to (bc_result ctx) 0 of
        Inl p \<Rightarrow> Inl p
      | Inr r \<Rightarrow>
          Inr \<lparr>bc_schema = bc_schema ctx,
               bc_query = bc_query ctx,
               bc_result = r,
               bc_charNr = 0,
               reflectValues = reflectValues ctx,
               currentReflectValueIdx = 0\<rparr>)"

definition bc_write ::
  "(nat \<Rightarrow> nat \<times> nat) \<Rightarrow> ('s, 'q, 'v) BytecodeCtx \<Rightarrow> 8 word list \<Rightarrow> ('s, 'q, 'v) BytecodeCtx" where
  "bc_write alloc ctx b = ctx\<lparr>bc_result := go_append alloc (bc_result ctx) b\<rparr>"

definition bc_writeByte ::
  "(nat \<Rightarrow> nat \<times> nat) \<Rightarrow> ('s, 'q, 'v) BytecodeCtx \<Rightarrow> 8 word \<Rightarrow> ('s, 'q, 'v) BytecodeCtx" where
  "bc_writeByte alloc ctx b = ctx\<lparr>bc_result := go_append alloc (bc_result ctx) [b]\<rparr>"

text \<open>\<^verbatim>\<open>getGoValue\<close> and \<^verbatim>\<open>setNextGoValue\<close>; the cursor is a \<^verbatim>\<open>uint8\<close> and wraps.\<close>

definition getGoValue :: "('s, 'q, 'v) BytecodeCtx \<Rightarrow> panic + 'v" where
  "getGoValue ctx =
     (if unat (currentReflectValueIdx ctx) < length (reflectValues ctx)
      then Inr (reflectValues ctx ! unat (currentReflectValueIdx ctx))
      else Inl (Panic ''index out of range''))"

definition setNextGoValue ::
  "('s, 'q, 'v) BytecodeCtx \<Rightarrow> 'v \<Rightarrow> panic + ('s, 'q, 'v) BytecodeCtx" where
  "setNextGoValue ctx v =
     (let idx = currentReflectValueIdx ctx + 1 in
      if unat idx < length (reflectValues ctx)
      then Inr (ctx\<lparr>currentReflectValueIdx := idx,
                     reflectValues := (reflectValues ctx)[unat idx := v]\<rparr>)
      else Inl (Panic ''index out of range''))"

section \<open>Resolver signatures at schema build time (parse.go)\<close>

datatype valueType =
  valueTypeUndefined | valueTypeArray | valueTypeObjRef | valueTypeObj | valueTypeData
| valueTypePtr | valueTypeMethod | valueTypeEnum | valueTypeTime | valueTypeInterfaceRef
| valueTypeInterface

text \<open>
  The structs \<^verbatim>\<open>input\<close>, \<^verbatim>\<open>referToInput\<close>, \<^verbatim>\<open>baseInput\<close>, \<^verbatim>\<open>obj\<close> and \<^verbatim>\<open>objMethod\<close> of
  parse.go. Pointers that may be nil are options, Go maps are association lists. The
  field \<^verbatim>\<open>typeNameBytes\<close> repeats \<^verbatim>\<open>typeName\<close> and \<^verbatim>\<open>customObjValue\<close> is never set by the code
  modelled here; both are left out.
\<close>

datatype input = Input
  (in_kind: Kind) (in_isEnum: bool) (in_enumTypeIndex: int) (in_isID: bool) (in_isFile: bool)
  (in_isTime: bool) (in_goFieldIdx: int) (in_gqFieldName: string) (in_elem: "input option")
  (in_isStructPointers: bool) (in_structName: string) (in_structContent: "(string \<times> input) list")

record referToInput =
  inputIdx :: int
  rti_input :: input

record baseInput =
  isCtx :: bool
  bi_goType :: "gotype option"

datatype obj = mk_obj
  (o_valueType: valueType) (o_typeName: string) (o_goTypeName: string) (o_goPkgPath: string)
  (o_qlFieldName: string) (o_hidden: bool) (o_isID: bool)
  (o_objContents: "(32 word \<times> obj) list") (o_structFieldIdx: int)
  (o_innerContent: "obj option") (o_dataValueType: Kind) (o_method: "objMethod option")
  (o_enumTypeIndex: int) (o_implementations: "obj list")
and objMethod = mk_objMethod
  (m_isTypeMethod: bool) (m_goFunctionName: string) (m_goType: gotype)
  (m_ins: "baseInput list") (m_inFields: "(string \<times> referToInput) list") (m_checkedIns: bool)
  (m_outNr: nat) (m_outType: obj) (m_errorOutNr: "nat option")

text \<open>The zero value of \<^verbatim>\<open>obj\<close>, the starting point of a composite literal \<^verbatim>\<open>obj{...}\<close>.\<close>

definition obj_zero :: obj where
  "obj_zero = mk_obj valueTypeUndefined '''' '''' '''' '''' False False [] 0 None KInvalid None 0 []"

text \<open>
  \<^verbatim>\<open>parseCtx\<close>: the schema it fills (whatever \<^verbatim>\<open>check\<close> keeps there, the type \<open>'s\<close>), the
  two counters and the list of methods whose inputs are still to be checked.
\<close>

record 's parseCtx =
  pc_schema :: 's
  unknownTypesCount :: int
  unknownInputsCount :: int
  parsedMethods :: "objMethod list"

text \<open>
  \<^verbatim>\<open>getObjKey\<close>: the 32 bit FNV-1 hash of \<^verbatim>\<open>hash/fnv\<close> (multiply by the prime, then xor the
  byte), with wrap-around.
\<close>

definition getObjKey :: "string \<Rightarrow> 32 word" where
  "getObjKey key = fold (\<lambda>b h. (h * 16777619) XOR of_char b) key 2166136261"

text \<open>
  Case mapping of single bytes. For an ASCII byte \<^verbatim>\<open>bytes.ToUpper\<close>, \<^verbatim>\<open>bytes.ToLower\<close> and
  \<^verbatim>\<open>strings.ToLower\<close> shift the letters; a lone byte from \<open>0x80\<close> on is not valid UTF-8 and
  comes back as the three bytes of U+FFFD.
\<close>

definition ascii_upper :: "char \<Rightarrow> char" where
  "ascii_upper b = (if CHR ''a'' \<le> b \<and> b \<le> CHR ''z'' then char_of (of_char b - (32::nat)) else b)"

definition ascii_lower :: "char \<Rightarrow> char" where
  "ascii_lower b = (if CHR ''A'' \<le> b \<and> b \<le> CHR ''Z'' then char_of (of_char b + (32::nat)) else b)"

definition ToUpper_byte :: "char \<Rightarrow> string" where
  "ToUpper_byte b =
     (if (of_char b :: nat) < 0x80 then [ascii_upper b] else [CHR 0xEF, CHR 0xBF, CHR 0xBD])"

definition ToLower_byte :: "char \<Rightarrow> string" where
  "ToLower_byte b =
     (if (of_char b :: nat) < 0x80 then [ascii_lower b] else [CHR 0xEF, CHR 0xBF, CHR 0xBD])"

definition formatGoNameToQL :: "string \<Rightarrow> string" where
  "formatGoNameToQL input =
     (case input of
        [] \<Rightarrow> []
      | [b] \<Rightarrow> ToLower_byte b
      | b0 # b1 # rest \<Rightarrow>
          if b1 = hd (ToUpper_byte b1) then input
          else ToLower_byte b0 @ b1 # rest)"

text \<open>
  \<^verbatim>\<open>strings.ToUpper(string(trimmedName[0]))[0] != trimmedName[0]\<close>: the byte is taken as a
  code point, upper-cased and encoded again, and the first byte of that is compared
  with the byte. It differs for the ASCII lower-case letters, and for every byte from
  \<open>0x80\<close> on except \<open>0xC3\<close> (the code points U+0080 to U+00FF and their upper-case forms
  are encoded with a first byte \<open>0xC2\<close>, \<open>0xC3\<close>, \<open>0xC5\<close> or \<open>0xCE\<close>, and only U+00C3 starts
  with its own value).
\<close>

definition upper_first_differs :: "char \<Rightarrow> bool" where
  "upper_first_differs b =
     ((CHR ''a'' \<le> b \<and> b \<le> CHR ''z'') \<or> ((of_char b :: nat) \<ge> 0x80 \<and> b \<noteq> CHR 0xC3))"

text \<open>
  \<^verbatim>\<open>AttrIsID\<close>'s type as \<^verbatim>\<open>reflect.TypeOf(AttrIsID(0))\<close> gives it; the import path of the
  package is not in the sources and is a parameter.
\<close>

definition attrIsIDType :: "string \<Rightarrow> gotype" where
  "attrIsIDType pkg = GoType KUint8 ''AttrIsID'' pkg False False [] []"

text \<open>
  The loop of \<^verbatim>\<open>checkFunction\<close> over the results of the function type. Its state is
  \<^verbatim>\<open>isID\<close>, \<^verbatim>\<open>outNr\<close> and \<^verbatim>\<open>hasErrorOut\<close>; it stops with an error at the second error result
  or the second data result.
\<close>

fun checkFunctionOuts ::
  "string \<Rightarrow> string \<Rightarrow> gotype list \<Rightarrow> nat \<Rightarrow> bool \<Rightarrow> nat option \<Rightarrow> nat option \<Rightarrow>
     (bool \<times> error) + (bool \<times> nat option \<times> nat option)" where
  "checkFunctionOuts pkg name [] i isID outNr hasErrorOut = Inr (isID, outNr, hasErrorOut)"
| "checkFunctionOuts pkg name (outType # outs) i isID outNr hasErrorOut =
     (if t_Name outType = t_Name (attrIsIDType pkg) \<and>
         t_PkgPath outType = t_PkgPath (attrIsIDType pkg) then
        checkFunctionOuts pkg name outs (i + 1) True outNr hasErrorOut
      else if t_Kind outType = KInterface \<and> t_ImplementsError outType then
        (if hasErrorOut \<noteq> None then
           Inl (isID, Error (name @ '' cannot return multiple error types''))
         else checkFunctionOuts pkg name outs (i + 1) isID outNr (Some i))
      else
        (if outNr \<noteq> None then
           Inl (isID, Error (name @ '' cannot return multiple types of data''))
         else checkFunctionOuts pkg name outs (i + 1) isID (Some i) hasErrorOut))"

text \<open>
  \<^verbatim>\<open>checkFunction\<close>. It is mutually recursive with \<^verbatim>\<open>check\<close>, which registers the type of
  the data result in the schema; \<^verbatim>\<open>check\<close> is a parameter here, so that everything
  proved holds whatever it does. The four results are named in the source, and a bare
  \<^verbatim>\<open>return\<close> gives back their current values. Asking a type that is not a function for
  its results panics in \<^verbatim>\<open>reflect\<close>, as does indexing the empty string.
\<close>

type_synonym 's checker =
  "gotype \<Rightarrow> bool \<Rightarrow> 's parseCtx \<Rightarrow> panic + ((error + obj) \<times> 's parseCtx)"

definition checkFunction ::
  "'s checker \<Rightarrow> string \<Rightarrow> string \<Rightarrow> gotype \<Rightarrow> bool \<Rightarrow> bool \<Rightarrow> 's parseCtx \<Rightarrow>
     panic + ((objMethod option \<times> string \<times> bool \<times> error option) \<times> 's parseCtx)" where
  "checkFunction check pkg name t isTypeMethod hasIDTag c =
     (let isID = hasIDTag;
          hasPrefix = (take 7 name = ''Resolve'');
          trimmedName = (if hasPrefix \<and> length name > 0 then drop 7 name else name)
      in
      if hasPrefix \<and> length name > 0 \<and> isTypeMethod \<and> trimmedName = [] then
        Inl (Panic ''index out of range'')
      else if hasPrefix \<and> length name > 0 \<and> isTypeMethod \<and> upper_first_differs (hd trimmedName)
        then Inr ((None, '''', isID, None), c)
      else if hasPrefix \<and> \<not> length name > 0 \<and> isTypeMethod then Inr ((None, '''', isID, None), c)
      else if \<not> hasPrefix \<and> isTypeMethod then Inr ((None, '''', isID, None), c)
      else if t_Kind t \<noteq> KFunc then Inl (Panic ''reflect: IsVariadic of non-func type'')
      else if t_IsVariadic t then
        Inr ((None, '''', isID,
              Some (Error ''function method cannot end with spread operator (...string)'')), c)
      else let numOuts = length (t_Outs t) in
        if numOuts = 0 then
          Inr ((None, '''', isID, Some (Error (name @ '' no value returned''))), c)
        else
          (case checkFunctionOuts pkg name (t_Outs t) 0 isID None None of
             Inl (isID', err) \<Rightarrow> Inr ((None, '''', isID', Some err), c)
           | Inr (isID', None, hasErrorOut) \<Rightarrow>
               Inr ((None, '''', isID',
                     Some (Error (name @ '' does not return usable data''))), c)
           | Inr (isID', Some outNr, hasErrorOut) \<Rightarrow>
               (case check (t_Outs t ! outNr) isID' c of
                  Inl p \<Rightarrow> Inl p
                | Inr (Inl err, c') \<Rightarrow> Inr ((None, '''', isID', Some err), c')
                | Inr (Inr outTypeObj, c') \<Rightarrow>
                    (let res = mk_objMethod isTypeMethod name t [] [] False outNr outTypeObj
                                 hasErrorOut
                     in Inr ((Some res, formatGoNameToQL trimmedName, isID', None),
                             c'\<lparr>parsedMethods := parsedMethods c' @ [res]\<rparr>)))))"

definition checkStructFieldFunc ::
  "'s checker \<Rightarrow> string \<Rightarrow> string \<Rightarrow> gotype \<Rightarrow> bool \<Rightarrow> int \<Rightarrow> 's parseCtx \<Rightarrow>
     panic + ((obj option \<times> error option) \<times> 's parseCtx)" where
  "checkStructFieldFunc check pkg fieldName goType hasIDTag idx c =
     (case checkFunction check pkg fieldName goType False hasIDTag c of
        Inl p \<Rightarrow> Inl p
      | Inr ((methodObj, _, isID, Some err), c') \<Rightarrow> Inr ((None, Some err), c')
      | Inr ((None, _, isID, None), c') \<Rightarrow> Inr ((None, None), c')
      | Inr ((Some m, _, isID, None), c') \<Rightarrow>
          Inr ((Some (mk_obj valueTypeMethod '''' '''' '''' '''' False isID [] idx None KInvalid
                        (Some m) 0 []), None), c'))"

text \<open>
  \<^verbatim>\<open>parseFieldTagGQ\<close>. \<^verbatim>\<open>strings.Split\<close> at the commas; \<^verbatim>\<open>strings.TrimSpace\<close> and
  \<^verbatim>\<open>strings.ToLower\<close> as they act on ASCII text (bytes from \<open>0x80\<close> on are kept as they are,
  where Go would decode them as UTF-8).
\<close>

fun split_comma :: "string \<Rightarrow> string list" where
  "split_comma [] = [[]]"
| "split_comma (ch # rest) =
     (if ch = CHR '','' then [] # split_comma rest
      else (case split_comma rest of [] \<Rightarrow> [[ch]] | w # ws \<Rightarrow> (ch # w) # ws))"

definition asciiSpace :: "char \<Rightarrow> bool" where
  "asciiSpace ch = (ch \<in> {CHR 0x09, CHR 0x0A, CHR 0x0B, CHR 0x0C, CHR 0x0D, CHR '' ''})"

definition TrimSpace :: "string \<Rightarrow> string" where
  "TrimSpace str = rev (dropWhile asciiSpace (rev (dropWhile asciiSpace str)))"

definition ToLower :: "string \<Rightarrow> string" where
  "ToLower str = map ascii_lower str"

fun parseFieldTagGQ_modifiers ::
  "string list \<Rightarrow> bool \<Rightarrow> error option \<Rightarrow> bool \<times> error option" where
  "parseFieldTagGQ_modifiers [] isID err = (isID, err)"
| "parseFieldTagGQ_modifiers (modifier # rest) isID err =
     (if ToLower (TrimSpace modifier) = ''id'' then parseFieldTagGQ_modifiers rest True err
      else (isID, Some (Error (''unknown field tag gq argument: '' @ modifier))))"

definition parseFieldTagGQ :: "StructField \<Rightarrow> string option \<times> bool \<times> bool \<times> error option" where
  "parseFieldTagGQ field =
     (case sf_TagGq field of
        None \<Rightarrow> (None, False, False, None)
      | Some val \<Rightarrow>
          if val = '''' then (None, False, False, None)
          else
            (let args = split_comma val;
                 nameArg = TrimSpace (hd args)
             in if nameArg = ''-'' then (None, True, False, None)
                else
                  (let err = (if nameArg \<noteq> '''' then validGraphQlName nameArg else None);
                       newName = (if nameArg \<noteq> '''' then Some nameArg else None);
                       (isID, err') = parseFieldTagGQ_modifiers (tl args) False err
                   in (newName, False, isID, err'))))"

definition checkStructField ::
  "'s checker \<Rightarrow> string \<Rightarrow> StructField \<Rightarrow> int \<Rightarrow> 's parseCtx \<Rightarrow>
     panic + ((string option \<times> obj option \<times> error option) \<times> 's parseCtx)" where
  "checkStructField check pkg field idx c =
     (if sf_Anonymous field then Inr ((None, None, None), c)
      else
        (case parseFieldTagGQ field of
           (customName, ignore, isID, err) \<Rightarrow>
             if ignore \<or> err \<noteq> None then Inr ((None, None, err), c)
             else if t_Kind (sf_Type field) = KFunc then
               (case checkStructFieldFunc check pkg (sf_Name field) (sf_Type field) isID idx c of
                  Inl p \<Rightarrow> Inl p
                | Inr ((None, err'), c') \<Rightarrow> Inr ((customName, None, err'), c')
                | Inr ((Some (mk_obj a1 a2 a3 a4 a5 a6 a7 a8 _ a10 a11 a12 a13 a14), err'), c') \<Rightarrow>
                    Inr ((customName,
                          Some (mk_obj a1 a2 a3 a4 a5 a6 a7 a8 idx a10 a11 a12 a13 a14), err'), c'))
             else
               (case check (sf_Type field) isID c of
                  Inl p \<Rightarrow> Inl p
                | Inr (Inl err', c') \<Rightarrow> Inr ((customName, None, Some err'), c')
                | Inr (Inr (mk_obj a1 a2 a3 a4 a5 a6 a7 a8 _ a10 a11 a12 a13 a14), c') \<Rightarrow>
                    Inr ((customName,
                          Some (mk_obj a1 a2 a3 a4 a5 a6 a7 a8 idx a10 a11 a12 a13 a14), None),
                         c'))))"

text \<open>
  \<^verbatim>\<open>checkStructFieldRecursive\<close> has no result: it fills \<^verbatim>\<open>res.objContents\<close>, descends into
  embedded fields, and leaves the loop at the first field for which \<^verbatim>\<open>checkStructField\<close>
  returns an error. \<^verbatim>\<open>NumField\<close> panics on a type that is not a struct.
\<close>

fun obj_put :: "obj \<Rightarrow> 32 word \<Rightarrow> obj \<Rightarrow> obj" where
  "obj_put (mk_obj a1 a2 a3 a4 a5 a6 a7 contents a9 a10 a11 a12 a13 a14) key v =
     mk_obj a1 a2 a3 a4 a5 a6 a7 (AList.update key v contents) a9 a10 a11 a12 a13 a14"

fun obj_set_qlFieldName :: "obj \<Rightarrow> string \<Rightarrow> obj" where
  "obj_set_qlFieldName (mk_obj a1 a2 a3 a4 _ a6 a7 a8 a9 a10 a11 a12 a13 a14) n =
     mk_obj a1 a2 a3 a4 n a6 a7 a8 a9 a10 a11 a12 a13 a14"

fun checkStructFieldRecursive ::
    "'s checker \<Rightarrow> string \<Rightarrow> gotype \<Rightarrow> obj \<Rightarrow> 's parseCtx \<Rightarrow> panic + (obj \<times> 's parseCtx)"
  and checkStructFields ::
    "'s checker \<Rightarrow> string \<Rightarrow> StructField list \<Rightarrow> int \<Rightarrow> obj \<Rightarrow> 's parseCtx \<Rightarrow>
       panic + (obj \<times> 's parseCtx)" where
  "checkStructFieldRecursive check pkg (GoType kind n p ie v outs flds) res c =
     (if kind \<noteq> KStruct then Inl (Panic ''reflect: NumField of non-struct type'')
      else checkStructFields check pkg flds 0 res c)"
| "checkStructFields check pkg [] i res c = Inr (res, c)"
| "checkStructFields check pkg (StructField fname anonymous ftype tag # rest) i res c =
     (case (if anonymous then checkStructFieldRecursive check pkg ftype res c else Inr (res, c)) of
        Inl p \<Rightarrow> Inl p
      | Inr (res1, c1) \<Rightarrow>
          (case checkStructField check pkg (StructField fname anonymous ftype tag) i c1 of
             Inl p \<Rightarrow> Inl p
           | Inr ((customName, ob, Some err), c2) \<Rightarrow> Inr (res1, c2)
           | Inr ((customName, None, None), c2) \<Rightarrow>
               checkStructFields check pkg rest (i + 1) res1 c2
           | Inr ((customName, Some ob, None), c2) \<Rightarrow>
               (let name = (case customName of None \<Rightarrow> formatGoNameToQL fname | Some cn \<Rightarrow> cn);
                    ob' = obj_set_qlFieldName ob name
                in checkStructFields check pkg rest (i + 1)
                     (obj_put res1 (getObjKey name) ob') c2)))"

(*DEFS-END*)

chapter \<open>Properties\<close>

section \<open>Name tokens and identifiers\<close>

lemma allowedChars_eq:
  "allowedChars r =
     (if (97 \<le> r \<and> r \<le> 122) \<or> r = 95 then Some True
      else if 48 \<le> r \<and> r \<le> 57 then Some False else None)"
  unfolding allowedChars_def by (simp, arith)

lemma allowedChars_of_char:
  "allowedChars (of_char ch) =
     (if lower_name_start ch then Some True
      else if CHR ''0'' \<le> ch \<and> ch \<le> CHR ''9'' then Some False else None)"
proof -
  have u: "ch = CHR ''_'' \<longleftrightarrow> (of_char ch :: nat) = 95"
    using of_char_eq_iff [of ch "CHR ''_''", where ?'a = nat] by simp
  show ?thesis
    unfolding allowedChars_eq lower_name_start_def by (simp add: u less_eq_char_def)
qed

lemma string_of_rune_ascii:
  assumes "lower_name_continue ch"
  shows "string_of_rune (of_char ch) = [ch]"
proof -
  have u: "ch = CHR ''_'' \<Longrightarrow> (of_char ch :: nat) = 95" by simp
  from assms show ?thesis
    unfolding lower_name_continue_def lower_name_start_def string_of_rune_def
    by (auto dest: u simp: less_eq_char_def)
qed

lemma validGraphQlNameLoop_pos:
  "0 < i \<Longrightarrow> (validGraphQlNameLoop i s = None) = list_all spec_name_continue s"
  by (induction s arbitrary: i) (auto simp: spec_name_continue_def spec_name_start_def)

lemma validGraphQlName_iff:
  "(validGraphQlName n = None) =
     (case n of [] \<Rightarrow> False | ch # rest \<Rightarrow> is_letter ch \<and> list_all spec_name_continue rest)"
  by (cases n) (auto simp: validGraphQlName_def is_letter_def validGraphQlNameLoop_pos)

lemma validGraphQlName_spec_Name: "validGraphQlName n = None \<Longrightarrow> spec_Name n"
  by (cases n) (auto simp: validGraphQlName_iff is_letter_def spec_name_start_def)

lemma takeWhile_lower_name:
  "list_all lower_name_continue s \<Longrightarrow> rest = [] \<or> \<not> spec_name_continue (hd rest) \<Longrightarrow>
     takeWhile lower_name_continue (s @ rest) = s"
  by (cases rest)
     (auto simp: takeWhile_append list_all_iff spec_name_continue_def spec_name_start_def
        lower_name_continue_def lower_name_start_def)

lemma drop_cursor_step:
  assumes "drop (charNr i) (data i) = ch # rest"
  shows "charNr i < length (data i)" and "data i ! charNr i = ch"
    and "drop (charNr (i\<lparr>charNr := charNr i + 1\<rparr>)) (data (i\<lparr>charNr := charNr i + 1\<rparr>)) = rest"
proof -
  from assms show lt: "charNr i < length (data i)" by (auto intro: ccontr)
  from assms lt show "data i ! charNr i = ch"
    by (metis hd_drop_conv_nth list.sel(1))
  from assms have "drop (Suc (charNr i)) (data i) = rest"
    by (metis drop_Suc list.sel(3) tl_drop)
  then show "drop (charNr (i\<lparr>charNr := charNr i + 1\<rparr>)) (data (i\<lparr>charNr := charNr i + 1\<rparr>)) = rest"
    by simp
qed

lemma parseNameLoop_nonempty:
  "drop (charNr i) (data i) = rest \<Longrightarrow> name \<noteq> [] \<Longrightarrow>
     parseNameLoop i name =
       Inr (name @ takeWhile lower_name_continue rest,
            i\<lparr>charNr := charNr i + length (takeWhile lower_name_continue rest)\<rparr>)"
proof (induction rest arbitrary: i name)
  case Nil
  then show ?case by (simp add: parseNameLoop.simps checkC_def eof_def)
next
  case (Cons ch rest)
  note st = drop_cursor_step [OF Cons.prems(1)]
  show ?case
  proof (cases "lower_name_continue ch")
    case True
    then have al: "allowedChars (of_char ch) \<noteq> None"
      by (auto simp: allowedChars_of_char lower_name_continue_def)
    from Cons.IH [OF st(3), of "name @ [ch]"] True al Cons.prems(2) st(1,2) show ?thesis
      by (subst parseNameLoop.simps)
         (auto simp: checkC_def eof_def Iter_c_def string_of_rune_ascii)
  next
    case False
    then have "allowedChars (of_char ch) = None"
      by (auto simp: allowedChars_of_char lower_name_continue_def)
    with False st(1,2) show ?thesis
      by (subst parseNameLoop.simps) (simp add: checkC_def eof_def Iter_c_def)
  qed
qed

lemma parseName_eq:
  "parseName i =
     Inr (parseName_token (drop (charNr i) (data i)),
          i\<lparr>charNr := charNr i + length (parseName_token (drop (charNr i) (data i)))\<rparr>)"
proof (cases "drop (charNr i) (data i)")
  case Nil
  then show ?thesis
    by (simp add: parseName_def parseName_token_def parseNameLoop.simps checkC_def eof_def)
next
  case (Cons ch rest)
  note st = drop_cursor_step [OF Cons]
  show ?thesis
  proof (cases "lower_name_start ch")
    case True
    then have c: "lower_name_continue ch" by (simp add: lower_name_continue_def)
    from parseNameLoop_nonempty [OF st(3), of "[ch]"] True c Cons st(1,2) show ?thesis
      unfolding parseName_def
      by (subst parseNameLoop.simps)
         (simp add: checkC_def eof_def Iter_c_def string_of_rune_ascii allowedChars_of_char
            parseName_token_def)
  next
    case False
    with Cons st(1,2) show ?thesis
      unfolding parseName_def
      by (subst parseNameLoop.simps)
         (simp add: checkC_def eof_def Iter_c_def allowedChars_of_char parseName_token_def)
  qed
qed

lemma parseName_token_spec_Name: "parseName_token rest = [] \<or> spec_Name (parseName_token rest)"
proof (cases rest)
  case Nil
  then show ?thesis by (simp add: parseName_token_def)
next
  case (Cons ch rest')
  have "list_all spec_name_continue (takeWhile lower_name_continue rest')"
    by (induction rest')
       (auto simp: spec_name_continue_def spec_name_start_def lower_name_continue_def
          lower_name_start_def)
  with Cons show ?thesis
    by (auto simp: parseName_token_def lower_name_continue_def lower_name_start_def
        spec_name_start_def)
qed

lemma parseName_token_lower_Name:
  assumes "lower_Name s" and "rest = [] \<or> \<not> spec_name_continue (hd rest)"
  shows "parseName_token (s @ rest) = s"
proof -
  from assms(1) obtain ch s' where s: "s = ch # s'" and st: "lower_name_start ch"
    and all: "list_all lower_name_continue s'"
    by (cases s) auto
  from st all have "list_all lower_name_continue s"
    by (simp add: s lower_name_continue_def)
  from takeWhile_lower_name [OF this assms(2)] st show ?thesis
    by (simp add: parseName_token_def s)
qed

lemma parseName_token_no_start:
  assumes "rest = [] \<or> \<not> spec_name_start (hd rest)"
  shows "parseName_token rest = []"
  using assms
  by (cases rest) (auto simp: parseName_token_def spec_name_start_def lower_name_start_def)

text \<open>
  Claim C7, as the code has it. Every name token returned by \<^verbatim>\<open>parseName\<close> is empty or
  matches the grammar \<^verbatim>\<open>[A-Za-z_][A-Za-z0-9_]*\<close>, and so does every identifier accepted by
  \<^verbatim>\<open>validGraphQlName\<close>. The validator accepts exactly the strings made of a letter followed
  by letters, digits and underscores: a leading underscore is rejected like a leading digit.
  The parser accepts in full a string matching \<^verbatim>\<open>[a-z_][a-z0-9_]*\<close> that is followed by the
  end of the input or by a character outside \<^verbatim>\<open>[A-Za-z0-9_]\<close>, and it returns the empty
  token, without moving, when the input at the cursor is finished or starts with a
  character outside \<^verbatim>\<open>[A-Za-z_]\<close>.
\<close>

theorem name_grammar_of_parser_and_validator:
  "((validGraphQlName n = None) =
      (case n of [] \<Rightarrow> False | ch # cs \<Rightarrow> is_letter ch \<and> list_all spec_name_continue cs)) \<and>
   (validGraphQlName n = None \<longrightarrow> spec_Name n) \<and>
   (parseName i = Inr (tok, i') \<longrightarrow> tok = [] \<or> spec_Name tok) \<and>
   (lower_Name s \<and> (rest = [] \<or> \<not> spec_name_continue (hd rest)) \<longrightarrow>
      parseName \<lparr>data = pre @ s @ rest, charNr = length pre\<rparr> =
        Inr (s, \<lparr>data = pre @ s @ rest, charNr = length pre + length s\<rparr>)) \<and>
   (rest = [] \<or> \<not> spec_name_start (hd rest) \<longrightarrow>
      parseName \<lparr>data = pre @ rest, charNr = length pre\<rparr> =
        Inr ('''', \<lparr>data = pre @ rest, charNr = length pre\<rparr>))"
proof (intro conjI impI)
  show "(validGraphQlName n = None) =
      (case n of [] \<Rightarrow> False | ch # cs \<Rightarrow> is_letter ch \<and> list_all spec_name_continue cs)"
    by (rule validGraphQlName_iff)
next
  assume "validGraphQlName n = None"
  then show "spec_Name n" by (rule validGraphQlName_spec_Name)
next
  assume "parseName i = Inr (tok, i')"
  then have "tok = parseName_token (drop (charNr i) (data i))"
    by (simp add: parseName_eq)
  with parseName_token_spec_Name [of "drop (charNr i) (data i)"]
  show "tok = [] \<or> spec_Name tok" by simp
next
  assume a: "lower_Name s \<and> (rest = [] \<or> \<not> spec_name_continue (hd rest))"
  then have "parseName_token (s @ rest) = s"
    by (intro parseName_token_lower_Name) simp_all
  then show "parseName \<lparr>data = pre @ s @ rest, charNr = length pre\<rparr> =
        Inr (s, \<lparr>data = pre @ s @ rest, charNr = length pre + length s\<rparr>)"
    by (simp add: parseName_eq)
next
  assume "rest = [] \<or> \<not> spec_name_start (hd rest)"
  then have "parseName_token rest = []" by (rule parseName_token_no_start)
  then show "parseName \<lparr>data = pre @ rest, charNr = length pre\<rparr> =
        Inr ('''', \<lparr>data = pre @ rest, charNr = length pre\<rparr>)"
    by (simp add: parseName_eq)
qed

theorem name_grammar_of_parser_and_validator_witness:
  "validGraphQlName ''a_9'' = None \<and> spec_Name ''a_9'' \<and>
   lower_Name ''ab_9'' \<and> \<not> spec_name_continue (hd '' }'') \<and>
   parseName \<lparr>data = ''{ab_9 }'', charNr = 1\<rparr> = Inr (''ab_9'', \<lparr>data = ''{ab_9 }'', charNr = 5\<rparr>) \<and>
   spec_Name ''ab_9'' \<and>
   \<not> spec_name_start (hd ''9a'') \<and>
   parseName \<lparr>data = ''{9a'', charNr = 1\<rparr> = Inr ('''', \<lparr>data = ''{9a'', charNr = 1\<rparr>)"
proof -
  have v: "validGraphQlName ''a_9'' = None"
    by (simp add: validGraphQlName_def)
  have l1: "lower_Name ''ab_9''"
    by (simp add: lower_name_start_def lower_name_continue_def)
  have l2: "\<not> spec_name_continue (hd '' }'')"
    by (simp add: spec_name_continue_def spec_name_start_def)
  have d: "\<not> spec_name_start (hd ''9a'')"
    by (simp add: spec_name_start_def)
  note t1 = name_grammar_of_parser_and_validator
    [of "''a_9''" "\<lparr>data = ''{ab_9 }'', charNr = 1\<rparr>" "''ab_9''"
        "\<lparr>data = ''{ab_9 }'', charNr = 5\<rparr>" "''ab_9''" "'' }''" "''{''"]
  note t2 = name_grammar_of_parser_and_validator
    [of "''a_9''" "\<lparr>data = ''{ab_9 }'', charNr = 1\<rparr>" "''ab_9''"
        "\<lparr>data = ''{ab_9 }'', charNr = 5\<rparr>" "''ab_9''" "''9a''" "''{''"]
  from t1 have a: "validGraphQlName ''a_9'' = None \<longrightarrow> spec_Name ''a_9''"
    by (rule conjunct2 [THEN conjunct1])
  from t1 have b: "lower_Name ''ab_9'' \<and> ('' }'' = [] \<or> \<not> spec_name_continue (hd '' }'')) \<longrightarrow>
      parseName \<lparr>data = ''{'' @ ''ab_9'' @ '' }'', charNr = length ''{''\<rparr> =
        Inr (''ab_9'', \<lparr>data = ''{'' @ ''ab_9'' @ '' }'', charNr = length ''{'' + length ''ab_9''\<rparr>)"
    by (rule conjunct2 [THEN conjunct2, THEN conjunct2, THEN conjunct1])
  from t1 have c: "parseName \<lparr>data = ''{ab_9 }'', charNr = 1\<rparr> =
        Inr (''ab_9'', \<lparr>data = ''{ab_9 }'', charNr = 5\<rparr>) \<longrightarrow> ''ab_9'' = [] \<or> spec_Name ''ab_9''"
    by (rule conjunct2 [THEN conjunct2, THEN conjunct1])
  from t2 have e: "''9a'' = [] \<or> \<not> spec_name_start (hd ''9a'') \<longrightarrow>
      parseName \<lparr>data = ''{'' @ ''9a'', charNr = length ''{''\<rparr> =
        Inr ('''', \<lparr>data = ''{'' @ ''9a'', charNr = length ''{''\<rparr>)"
    by (rule conjunct2 [THEN conjunct2, THEN conjunct2, THEN conjunct2])
  from a v have p1: "spec_Name ''a_9''" by (rule mp)
  from b l1 l2 have "parseName \<lparr>data = ''{'' @ ''ab_9'' @ '' }'', charNr = length ''{''\<rparr> =
        Inr (''ab_9'', \<lparr>data = ''{'' @ ''ab_9'' @ '' }'', charNr = length ''{'' + length ''ab_9''\<rparr>)"
    by blast
  then have p2: "parseName \<lparr>data = ''{ab_9 }'', charNr = 1\<rparr> =
        Inr (''ab_9'', \<lparr>data = ''{ab_9 }'', charNr = 5\<rparr>)"
    by simp
  from c p2 have p3: "spec_Name ''ab_9''" by blast
  from e d have "parseName \<lparr>data = ''{'' @ ''9a'', charNr = length ''{''\<rparr> =
        Inr ('''', \<lparr>data = ''{'' @ ''9a'', charNr = length ''{''\<rparr>)"
    by blast
  then have p4: "parseName \<lparr>data = ''{9a'', charNr = 1\<rparr> = Inr ('''', \<lparr>data = ''{9a'', charNr = 1\<rparr>)"
    by simp
  from v p1 l1 l2 p2 p3 d p4 show ?thesis by blast
qed

text \<open>
  Claim C7 as it is written fails twice: \<^verbatim>\<open>_a\<close> matches the grammar and the validator
  rejects it, and \<^verbatim>\<open>Ab\<close> matches the grammar and the parser reads the empty token from it.
\<close>

theorem name_grammar_counterexample:
  "spec_Name ''_a'' \<and> validGraphQlName ''_a'' = Some (Error ''invalid graphql name'') \<and>
   spec_Name ''Ab'' \<and>
   parseName \<lparr>data = ''Ab'', charNr = 0\<rparr> = Inr ('''', \<lparr>data = ''Ab'', charNr = 0\<rparr>)"
  by (simp add: validGraphQlName_def spec_name_start_def spec_name_continue_def parseName_eq
      parseName_token_def lower_name_start_def)

section \<open>Inputs made of ignored tokens\<close>

lemma isUnicodeBom_byte: "\<not> isUnicodeBom (of_char ch)"
proof -
  have "(of_char ch :: nat) < 256" by (rule nat_of_char_less_256)
  then have "(of_char ch :: nat) \<noteq> 65279" by linarith
  then show ?thesis by (simp add: isUnicodeBom_def)
qed

lemma ParseQuery_empty:
  "ParseQuery '''' = Inr (Inr \<lparr>operationType = ''query'', Operator_name = ''''\<rparr>)"
  by (simp add: ParseQuery_def parseOperator_def parseOperatorLoop.simps eof_def)

text \<open>
  Claim C10 at the byte order mark. The three bytes of a UTF-8 encoded U+FEFF are an
  ignored token of the query language, and \<^verbatim>\<open>isIgnoredToken\<close> asks \<^verbatim>\<open>isUnicodeBom\<close> first;
  but the parser reads one byte at a time, so the test never holds, and an input that
  is nothing but the mark is refused: \<^verbatim>\<open>ParseQuery\<close> returns the error
  \<^verbatim>\<open>unknown operation type\<close> instead of the default \<^verbatim>\<open>query\<close> operator.
\<close>

theorem ParseQuery_byte_order_mark:
  "ParseQuery [CHR 0xEF, CHR 0xBB, CHR 0xBF] = Inr (Inl (Error ''unknown operation type''))"
  by (simp add: ParseQuery_def parseOperator_def parseOperatorLoop.simps eof_def
      isIgnoredToken_def currentC_def Iter_c_def isUnicodeBom_def isWhiteSpace_def
      isLineTerminator_def isComment_def parseOperatorSwitch_def matches_def matchesLoop.simps
      checkC_def)

section \<open>Enum registration\<close>

lemma registerEnumLoop_ok:
  "registerEnumLoop es res vk = Inr (res', vk') \<Longrightarrow>
     distinct (map snd es) \<and>
     (\<forall>(k, v) \<in> set es. map_of vk v = None \<and> k \<noteq> [] \<and> validGraphQlName k = None) \<and>
     fst ` set res' = fst ` set res \<union> fst ` set es"
proof (induction es arbitrary: res vk)
  case Nil
  then show ?case by simp
next
  case (Cons e es)
  obtain k v where e: "e = (k, v)" by (cases e)
  from Cons.prems e have k: "k \<noteq> []" and vn: "validGraphQlName k = None"
    and fresh: "map_of vk v = None"
    and rec: "registerEnumLoop es (AList.update k v res) (AList.update v k vk) = Inr (res', vk')"
    by (auto split: if_splits option.splits)
  note ih = Cons.IH [OF rec]
  from ih have "\<forall>(k', v') \<in> set es. v' \<noteq> v \<and> map_of vk v' = None"
    by (auto simp: update_conv' split: if_splits)
  with ih k vn fresh e show ?case
    by (auto simp: dom_update image_iff)
qed

lemma registerEnumLoop_dup:
  assumes "(k1, v) \<in> set es" "(k2, v) \<in> set es" "k1 \<noteq> k2"
  shows "\<exists>p. registerEnumLoop es res vk = Inl p"
proof (cases "registerEnumLoop es res vk")
  case (Inl p)
  then show ?thesis by blast
next
  case (Inr r)
  obtain res' vk' where "r = (res', vk')" by (cases r)
  with Inr have "distinct (map snd es)" by (auto dest: registerEnumLoop_ok)
  with assms have False
    by (metis distinct_map fst_conv inj_on_def snd_conv)
  then show ?thesis ..
qed

text \<open>
  Claim C8. A mapping of a valid enum type (a named type of an integer or string kind,
  keyed by strings) with no entries is a no-op: \<^verbatim>\<open>RegisterEnum\<close> returns false and leaves
  \<^verbatim>\<open>definedEnums\<close> as it was. A mapping in which two distinct labels carry the same value
  makes the registration panic. When the registration succeeds, the enum is stored under
  its type name with exactly the labels of the mapping, and every label is non-empty, is
  accepted by \<^verbatim>\<open>validGraphQlName\<close> and matches the identifier grammar.
\<close>

theorem enum_registration:
  "(em_Kind m = KMap \<and> em_KeyKind m = KString \<and> validEnumType (em_Elem m) \<and>
      t_PkgPath (em_Elem m) \<noteq> '''' \<and> t_Name (em_Elem m) \<noteq> '''' \<and> em_entries m = [] \<longrightarrow>
      RegisterEnum defs m = Inr (False, defs)) \<and>
   ((k1, v) \<in> set (em_entries m) \<and> (k2, v) \<in> set (em_entries m) \<and> k1 \<noteq> k2 \<longrightarrow>
      (\<exists>p. RegisterEnum defs m = Inl p)) \<and>
   (RegisterEnum defs m = Inr (True, defs') \<longrightarrow>
      (\<exists>e. defs' = defs(t_Name (em_Elem m) \<mapsto> e) \<and>
           fst ` set (keyValue e) = fst ` set (em_entries m) \<and>
           (\<forall>k \<in> fst ` set (keyValue e).
              k \<noteq> '''' \<and> validGraphQlName k = None \<and> spec_Name k)))"
proof (intro conjI impI)
  assume "em_Kind m = KMap \<and> em_KeyKind m = KString \<and> validEnumType (em_Elem m) \<and>
      t_PkgPath (em_Elem m) \<noteq> '''' \<and> t_Name (em_Elem m) \<noteq> '''' \<and> em_entries m = []"
  then show "RegisterEnum defs m = Inr (False, defs)"
    by (simp add: RegisterEnum_def registerEnumCheck_def)
next
  assume a: "(k1, v) \<in> set (em_entries m) \<and> (k2, v) \<in> set (em_entries m) \<and> k1 \<noteq> k2"
  then obtain p where p: "registerEnumLoop (em_entries m) [] [] = Inl p"
    using registerEnumLoop_dup [of k1 v "em_entries m" k2 "[]" "[]"] by blast
  from a have ne: "em_entries m \<noteq> []" by auto
  show "\<exists>p. RegisterEnum defs m = Inl p"
    unfolding RegisterEnum_def registerEnumCheck_def Let_def using p ne
    by (simp split: if_splits)
next
  assume a: "RegisterEnum defs m = Inr (True, defs')"
  then obtain e where e: "registerEnumCheck m = Inr (Some e)"
    and d: "defs' = defs(typeName e \<mapsto> e)"
    by (auto simp: RegisterEnum_def split: sum.splits option.splits)
  from e obtain res vk where l: "registerEnumLoop (em_entries m) [] [] = Inr (res, vk)"
    and kv: "keyValue e = res" and tn: "typeName e = t_Name (em_Elem m)"
    by (auto simp: registerEnumCheck_def Let_def split: if_splits sum.splits)
  note ok = registerEnumLoop_ok [OF l]
  from ok kv have keys: "fst ` set (keyValue e) = fst ` set (em_entries m)" by simp
  have "\<forall>k \<in> fst ` set (em_entries m). k \<noteq> '''' \<and> validGraphQlName k = None \<and> spec_Name k"
    using ok by (fastforce intro: validGraphQlName_spec_Name)
  then have all: "\<forall>k \<in> fst ` set (keyValue e).
      k \<noteq> '''' \<and> validGraphQlName k = None \<and> spec_Name k"
    unfolding keys .
  from d tn have "defs' = defs(t_Name (em_Elem m) \<mapsto> e)" by simp
  with keys all
  show "\<exists>e. defs' = defs(t_Name (em_Elem m) \<mapsto> e) \<and>
           fst ` set (keyValue e) = fst ` set (em_entries m) \<and>
           (\<forall>k \<in> fst ` set (keyValue e).
              k \<noteq> '''' \<and> validGraphQlName k = None \<and> spec_Name k)"
    by blast
qed

theorem enum_registration_witness:
  "RegisterEnum Map.empty
      \<lparr>em_Kind = KMap, em_KeyKind = KString, em_Elem = GoType KString ''Animal'' ''main'' False False [] [],
       em_entries = ([] :: (string \<times> nat) list)\<rparr> = Inr (False, Map.empty) \<and>
   (\<exists>p. RegisterEnum Map.empty
      \<lparr>em_Kind = KMap, em_KeyKind = KString, em_Elem = GoType KString ''Animal'' ''main'' False False [] [],
       em_entries = [(''CAT'', 1::nat), (''DOG'', 1)]\<rparr> = Inl p) \<and>
   (\<exists>e. RegisterEnum Map.empty
      \<lparr>em_Kind = KMap, em_KeyKind = KString, em_Elem = GoType KString ''Animal'' ''main'' False False [] [],
       em_entries = [(''DOG'', 2::nat), (''CAT'', 1)]\<rparr> = Inr (True, [''Animal'' \<mapsto> e]) \<and>
      fst ` set (keyValue e) = {''CAT'', ''DOG''} \<and>
      (\<forall>k \<in> fst ` set (keyValue e). k \<noteq> '''' \<and> validGraphQlName k = None \<and> spec_Name k))"
proof -
  let ?t = "GoType KString ''Animal'' ''main'' False False [] []"
  let ?m0 = "\<lparr>em_Kind = KMap, em_KeyKind = KString, em_Elem = ?t,
       em_entries = ([] :: (string \<times> nat) list)\<rparr>"
  let ?m1 = "\<lparr>em_Kind = KMap, em_KeyKind = KString, em_Elem = ?t,
       em_entries = [(''CAT'', 1::nat), (''DOG'', 1)]\<rparr>"
  let ?m2 = "\<lparr>em_Kind = KMap, em_KeyKind = KString, em_Elem = ?t,
       em_entries = [(''DOG'', 2::nat), (''CAT'', 1)]\<rparr>"
  have h0: "em_Kind ?m0 = KMap \<and> em_KeyKind ?m0 = KString \<and> validEnumType (em_Elem ?m0) \<and>
      t_PkgPath (em_Elem ?m0) \<noteq> '''' \<and> t_Name (em_Elem ?m0) \<noteq> '''' \<and> em_entries ?m0 = []"
    by (simp add: validEnumType_def)
  from enum_registration [where m = ?m0 and defs = Map.empty] h0
  have r0: "RegisterEnum Map.empty ?m0 = Inr (False, Map.empty)" by blast
  have h1: "(''CAT'', 1) \<in> set (em_entries ?m1) \<and> (''DOG'', 1) \<in> set (em_entries ?m1) \<and>
      ''CAT'' \<noteq> ''DOG''"
    by simp
  from enum_registration [where m = ?m1 and defs = Map.empty and ?k1.0 = "''CAT''" and ?k2.0 = "''DOG''" and v = 1] h1
  have r1: "\<exists>p. RegisterEnum Map.empty ?m1 = Inl p" by blast
  obtain d where h2: "RegisterEnum Map.empty ?m2 = Inr (True, d)"
    by (simp add: RegisterEnum_def registerEnumCheck_def validEnumType_def
        validGraphQlName_def Let_def)
  from enum_registration [where m = ?m2 and defs = Map.empty and defs' = d]
  have "RegisterEnum Map.empty ?m2 = Inr (True, d) \<longrightarrow>
      (\<exists>e. d = Map.empty(t_Name (em_Elem ?m2) \<mapsto> e) \<and>
           fst ` set (keyValue e) = fst ` set (em_entries ?m2) \<and>
           (\<forall>k \<in> fst ` set (keyValue e).
              k \<noteq> '''' \<and> validGraphQlName k = None \<and> spec_Name k))"
    by (rule conjunct2 [THEN conjunct2])
  with h2 obtain e where e: "d = Map.empty(t_Name (em_Elem ?m2) \<mapsto> e)"
    "fst ` set (keyValue e) = fst ` set (em_entries ?m2)"
    "\<forall>k \<in> fst ` set (keyValue e). k \<noteq> '''' \<and> validGraphQlName k = None \<and> spec_Name k"
    by blast
  from e(2) have "fst ` set (keyValue e) = {''CAT'', ''DOG''}" by auto
  moreover from e(1) have "d = [''Animal'' \<mapsto> e]" by simp
  ultimately have r2: "\<exists>e. RegisterEnum Map.empty ?m2 = Inr (True, [''Animal'' \<mapsto> e]) \<and>
      fst ` set (keyValue e) = {''CAT'', ''DOG''} \<and>
      (\<forall>k \<in> fst ` set (keyValue e). k \<noteq> '''' \<and> validGraphQlName k = None \<and> spec_Name k)"
    using h2 e(3) by blast
  from r0 r1 r2 show ?thesis by blast
qed


section \<open>The reset of the bytecode context\<close>

text \<open>
  Claim C9. The reset at the start of \<^verbatim>\<open>BytecodeResolve\<close> never panics; after it the result
  buffer has length zero and still is the same backing array with the same capacity, the
  cursor of the value stack is zero, the stack and the schema reference are unchanged.
  The allocation is kept for use: writing up to the old capacity after the reset stays in
  the same array, whatever the allocator would have returned.
\<close>

theorem BytecodeResolve_reset_keeps_buffer:
  "\<exists>ctx'. BytecodeResolve_reset ctx = Inr ctx' \<and>
     sl_len (bc_result ctx') = 0 \<and>
     sl_cap (bc_result ctx') = sl_cap (bc_result ctx) \<and>
     sl_array (bc_result ctx') = sl_array (bc_result ctx) \<and>
     currentReflectValueIdx ctx' = 0 \<and>
     reflectValues ctx' = reflectValues ctx \<and>
     bc_schema ctx' = bc_schema ctx \<and>
     (\<forall>b. length b \<le> sl_cap (bc_result ctx) \<longrightarrow>
        sl_array (bc_result (bc_write alloc ctx' b)) = sl_array (bc_result ctx) \<and>
        sl_cap (bc_result (bc_write alloc ctx' b)) = sl_cap (bc_result ctx) \<and>
        sl_bytes (bc_result (bc_write alloc ctx' b)) = b)"
  by (auto simp: BytecodeResolve_reset_def reslice_to_def sl_cap_def bc_write_def go_append_def sl_bytes_def Let_def)

theorem BytecodeResolve_reset_keeps_buffer_witness:
  "\<exists>ctx'. BytecodeResolve_reset
       \<lparr>bc_schema = (), bc_query = (),
        bc_result = \<lparr>sl_array = 7, sl_store = [1, 2, 3, 4], sl_len = 3\<rparr>,
        bc_charNr = 5, reflectValues = [True, False], currentReflectValueIdx = 1\<rparr> = Inr ctx' \<and>
     sl_len (bc_result ctx') = 0 \<and>
     sl_array (bc_result (bc_write (\<lambda>n. (99, 2 * n)) ctx' [10, 11])) = 7 \<and>
     sl_bytes (bc_result (bc_write (\<lambda>n. (99, 2 * n)) ctx' [10, 11])) = [10, 11]"
proof -
  let ?c = "\<lparr>bc_schema = (), bc_query = (),
        bc_result = \<lparr>sl_array = 7, sl_store = [1, 2, 3, 4], sl_len = 3\<rparr>,
        bc_charNr = 5, reflectValues = [True, False], currentReflectValueIdx = 1\<rparr>"
  have le: "length [10 :: 8 word, 11] \<le> sl_cap (bc_result ?c)" by (simp add: sl_cap_def)
  from BytecodeResolve_reset_keeps_buffer [where ctx = ?c and alloc = "\<lambda>n. (99, 2 * n)"] obtain ctx' where
    r: "BytecodeResolve_reset ?c = Inr ctx'" "sl_len (bc_result ctx') = 0"
    and w: "\<forall>b. length b \<le> sl_cap (bc_result ?c) \<longrightarrow>
        sl_array (bc_result (bc_write (\<lambda>n. (99, 2 * n)) ctx' b)) = sl_array (bc_result ?c) \<and>
        sl_cap (bc_result (bc_write (\<lambda>n. (99, 2 * n)) ctx' b)) = sl_cap (bc_result ?c) \<and>
        sl_bytes (bc_result (bc_write (\<lambda>n. (99, 2 * n)) ctx' b)) = b"
    by blast
  from w le have "sl_array (bc_result (bc_write (\<lambda>n. (99, 2 * n)) ctx' [10, 11])) = sl_array (bc_result ?c) \<and>
        sl_bytes (bc_result (bc_write (\<lambda>n. (99, 2 * n)) ctx' [10, 11])) = [10, 11]"
    by blast
  with r show ?thesis by simp
qed

end
